theory Spec2Isabelle
  imports Main "HOL-Library.Word"
begin

section \<open>Python values\<close>

text \<open>
  The embedding follows \<^verbatim>\<open>src/vertx/eventbus.py\<close>. A Python \<^verbatim>\<open>str\<close> is a list of
  Unicode code points, a \<^verbatim>\<open>bytes\<close> object a list of 8-bit words. The values that
  travel in an envelope are the values of the \<^verbatim>\<open>json\<close> module: \<^verbatim>\<open>None\<close>, booleans,
  unbounded integers, strings, lists and dictionaries with string keys. A dictionary is
  an association list in insertion order. Python floats are not part of the embedding.
\<close>

type_synonym pystr = "nat list"
type_synonym bytes = "8 word list"

definition py :: "string \<Rightarrow> pystr" where
  "py s = map of_char s"

datatype json =
    JNull
  | JBool bool
  | JInt int
  | JStr pystr
  | JList "json list"
  | JDict "(pystr \<times> json) list"

text \<open>
  Exceptions are values. \<open>Unmodelled\<close> is not a Python exception: it marks an input that
  needs a Python float (a JSON number with a fraction or an exponent, \<^verbatim>\<open>NaN\<close>,
  \<^verbatim>\<open>Infinity\<close>), about which the embedding says nothing.
\<close>

datatype error =
    JSONDecodeError
  | UnicodeDecodeError
  | UnicodeEncodeError
  | StructError
  | TypeError
  | KeyError
  | RuntimeError
  | RecursionError
  | Unmodelled

text \<open>Truth value testing, as in \<^verbatim>\<open>if address:\<close>.\<close>

fun truthy :: "json \<Rightarrow> bool" where
  "truthy JNull = False"
| "truthy (JBool b) = b"
| "truthy (JInt i) = (i \<noteq> 0)"
| "truthy (JStr s) = (s \<noteq> [])"
| "truthy (JList xs) = (xs \<noteq> [])"
| "truthy (JDict kvs) = (kvs \<noteq> [])"

text \<open>\<^verbatim>\<open>d[k] = v\<close>: an existing key keeps its position, a new key goes last.\<close>

fun dict_set :: "('k \<times> 'v) list \<Rightarrow> 'k \<Rightarrow> 'v \<Rightarrow> ('k \<times> 'v) list" where
  "dict_set [] k v = [(k, v)]"
| "dict_set ((k', v') # d) k v =
     (if k' = k then (k, v) # d else (k', v') # dict_set d k v)"

text \<open>\<^verbatim>\<open>d.get(k)\<close>: \<^verbatim>\<open>None\<close> for a missing key.\<close>

definition dict_get :: "(pystr \<times> json) list \<Rightarrow> pystr \<Rightarrow> json" where
  "dict_get d k = (case map_of d k of None \<Rightarrow> JNull | Some v \<Rightarrow> v)"

text \<open>
  Hashing a dictionary key: lists and dictionaries are unhashable (\<^verbatim>\<open>TypeError\<close>);
  \<^verbatim>\<open>True\<close> and \<^verbatim>\<open>1\<close>, \<^verbatim>\<open>False\<close> and \<^verbatim>\<open>0\<close> are the same key.
\<close>

fun py_hash :: "json \<Rightarrow> error + json" where
  "py_hash (JList xs) = Inl TypeError"
| "py_hash (JDict kvs) = Inl TypeError"
| "py_hash (JBool b) = Inr (JInt (if b then 1 else 0))"
| "py_hash v = Inr v"

text \<open>\<^verbatim>\<open>x in s\<close> for strings: \<open>x\<close> occurs in \<open>s\<close> as a contiguous part.\<close>

fun is_prefix :: "'a list \<Rightarrow> 'a list \<Rightarrow> bool" where
  "is_prefix [] ys = True"
| "is_prefix (x # xs) [] = False"
| "is_prefix (x # xs) (y # ys) = (x = y \<and> is_prefix xs ys)"

fun is_substring :: "'a list \<Rightarrow> 'a list \<Rightarrow> bool" where
  "is_substring xs [] = (xs = [])"
| "is_substring xs (y # ys) = (is_prefix xs (y # ys) \<or> is_substring xs ys)"

text \<open>\<^verbatim>\<open>key in obj\<close> for a string \<open>key\<close>.\<close>

fun py_contains :: "json \<Rightarrow> pystr \<Rightarrow> error + bool" where
  "py_contains (JDict d) key = Inr (key \<in> set (map fst d))"
| "py_contains (JList xs) key = Inr (JStr key \<in> set xs)"
| "py_contains (JStr s) key = Inr (is_substring key s)"
| "py_contains v key = Inl TypeError"

text \<open>\<^verbatim>\<open>obj[key]\<close> for a string \<open>key\<close>: strings and lists take integer indices only.\<close>

fun py_getitem :: "json \<Rightarrow> pystr \<Rightarrow> error + json" where
  "py_getitem (JDict d) key =
     (case map_of d key of None \<Rightarrow> Inl KeyError | Some v \<Rightarrow> Inr v)"
| "py_getitem v key = Inl TypeError"

section \<open>Text and bytes\<close>

text \<open>
  \<^verbatim>\<open>str.encode()\<close> and \<^verbatim>\<open>bytes.decode()\<close> with their defaults: strict UTF-8. A surrogate
  code point cannot be encoded; a decoder accepts only the shortest encoding of a code
  point that is no surrogate and lies below \<open>0x110000\<close>.
\<close>

definition utf8_encode_char :: "nat \<Rightarrow> error + bytes" where
  "utf8_encode_char c =
     (if c < 0x80 then Inr [of_nat c]
      else if c < 0x800 then Inr [of_nat (0xC0 + c div 64), of_nat (0x80 + c mod 64)]
      else if 0xD800 \<le> c \<and> c \<le> 0xDFFF then Inl UnicodeEncodeError
      else if c < 0x10000 then
        Inr [of_nat (0xE0 + c div 4096), of_nat (0x80 + c div 64 mod 64), of_nat (0x80 + c mod 64)]
      else if c < 0x110000 then
        Inr [of_nat (0xF0 + c div 262144), of_nat (0x80 + c div 4096 mod 64),
             of_nat (0x80 + c div 64 mod 64), of_nat (0x80 + c mod 64)]
      else Inl UnicodeEncodeError)"

fun utf8_encode :: "pystr \<Rightarrow> error + bytes" where
  "utf8_encode [] = Inr []"
| "utf8_encode (c # cs) =
     (case utf8_encode_char c of
        Inl e \<Rightarrow> Inl e
      | Inr bs \<Rightarrow> (case utf8_encode cs of Inl e \<Rightarrow> Inl e | Inr rest \<Rightarrow> Inr (bs @ rest)))"

definition is_cont :: "8 word \<Rightarrow> bool" where
  "is_cont b = (0x80 \<le> unat b \<and> unat b \<le> 0xBF)"

definition cont_bits :: "8 word \<Rightarrow> nat" where
  "cont_bits b = unat b mod 64"

definition then_char :: "nat \<Rightarrow> error + pystr \<Rightarrow> error + pystr" where
  "then_char c r = (case r of Inl e \<Rightarrow> Inl e | Inr s \<Rightarrow> Inr (c # s))"

fun utf8_decode :: "bytes \<Rightarrow> error + pystr" where
  "utf8_decode [] = Inr []"
| "utf8_decode (b0 # bs) =
     (let c0 = unat b0 in
      if c0 < 0x80 then then_char c0 (utf8_decode bs)
      else if 0xC2 \<le> c0 \<and> c0 \<le> 0xDF then
        (case bs of
           b1 # r \<Rightarrow>
             if is_cont b1 then then_char ((c0 - 0xC0) * 64 + cont_bits b1) (utf8_decode r)
             else Inl UnicodeDecodeError
         | _ \<Rightarrow> Inl UnicodeDecodeError)
      else if 0xE0 \<le> c0 \<and> c0 \<le> 0xEF then
        (case bs of
           b1 # b2 # r \<Rightarrow>
             if is_cont b1 \<and> is_cont b2
                \<and> (c0 = 0xE0 \<longrightarrow> 0xA0 \<le> unat b1) \<and> (c0 = 0xED \<longrightarrow> unat b1 \<le> 0x9F)
             then then_char ((c0 - 0xE0) * 4096 + cont_bits b1 * 64 + cont_bits b2) (utf8_decode r)
             else Inl UnicodeDecodeError
         | _ \<Rightarrow> Inl UnicodeDecodeError)
      else if 0xF0 \<le> c0 \<and> c0 \<le> 0xF4 then
        (case bs of
           b1 # b2 # b3 # r \<Rightarrow>
             if is_cont b1 \<and> is_cont b2 \<and> is_cont b3
                \<and> (c0 = 0xF0 \<longrightarrow> 0x90 \<le> unat b1) \<and> (c0 = 0xF4 \<longrightarrow> unat b1 \<le> 0x8F)
             then then_char ((c0 - 0xF0) * 262144 + cont_bits b1 * 4096 + cont_bits b2 * 64
                              + cont_bits b3) (utf8_decode r)
             else Inl UnicodeDecodeError
         | _ \<Rightarrow> Inl UnicodeDecodeError)
      else Inl UnicodeDecodeError)"

text \<open>\<^verbatim>\<open>int.from_bytes(bs, 'big')\<close>\<close>

definition int_from_bytes :: "bytes \<Rightarrow> nat" where
  "int_from_bytes bs = foldl (\<lambda>acc b. acc * 256 + unat b) 0 bs"

text \<open>
  \<^verbatim>\<open>struct.pack("!i%ss" % len(msg), len(msg), msg)\<close>: the format \<^verbatim>\<open>!i\<close> is a signed
  32-bit integer in network byte order, and \<^verbatim>\<open>struct.error\<close> is raised for a number
  outside its range; the \<^verbatim>\<open>s\<close> field has the size of \<open>msg\<close> and holds it unchanged.
\<close>

definition struct_pack :: "nat \<Rightarrow> bytes \<Rightarrow> error + bytes" where
  "struct_pack n msg =
     (if n > 2147483647 then Inl StructError
      else Inr ([of_nat (n div 16777216), of_nat (n div 65536), of_nat (n div 256), of_nat n] @ msg))"

section \<open>json.dumps\<close>

text \<open>
  \<^verbatim>\<open>json.dumps\<close> with its defaults: \<^verbatim>\<open>ensure_ascii=True\<close> and the separators \<^verbatim>\<open>", "\<close> and
  \<^verbatim>\<open>": "\<close>. Characters are written as their code points:
  \<open>0x22\<close> is the double quote, \<open>0x5C\<close> the backslash, \<open>0x75\<close> the letter u.
\<close>

function nat_repr :: "nat \<Rightarrow> pystr" where
  "nat_repr n = (if n < 10 then [48 + n] else nat_repr (n div 10) @ [48 + n mod 10])"
  by pat_completeness auto
termination
  by (relation "measure id") auto

definition int_repr :: "int \<Rightarrow> pystr" where
  "int_repr i = (if i < 0 then 0x2D # nat_repr (nat (- i)) else nat_repr (nat i))"

definition hex_digit :: "nat \<Rightarrow> nat" where
  "hex_digit d = (if d < 10 then 48 + d else 87 + d)"

definition hex4 :: "nat \<Rightarrow> pystr" where
  "hex4 n = [hex_digit (n div 4096 mod 16), hex_digit (n div 256 mod 16),
             hex_digit (n div 16 mod 16), hex_digit (n mod 16)]"

definition escape_char :: "nat \<Rightarrow> pystr" where
  "escape_char c =
     (if c = 0x22 then [0x5C, 0x22]
      else if c = 0x5C then [0x5C, 0x5C]
      else if c = 0x0A then [0x5C, 0x6E]
      else if c = 0x0D then [0x5C, 0x72]
      else if c = 0x09 then [0x5C, 0x74]
      else if c = 0x0C then [0x5C, 0x66]
      else if c = 0x08 then [0x5C, 0x62]
      else if 0x20 \<le> c \<and> c \<le> 0x7E then [c]
      else if c < 0x10000 then [0x5C, 0x75] @ hex4 c
      else [0x5C, 0x75] @ hex4 (0xD800 + (c - 0x10000) div 1024 mod 1024)
         @ [0x5C, 0x75] @ hex4 (0xDC00 + (c - 0x10000) mod 1024))"

definition encode_basestring_ascii :: "pystr \<Rightarrow> pystr" where
  "encode_basestring_ascii s = [0x22] @ concat (map escape_char s) @ [0x22]"

fun json_dumps :: "json \<Rightarrow> pystr"
and dumps_items :: "json list \<Rightarrow> pystr"
and dumps_pairs :: "(pystr \<times> json) list \<Rightarrow> pystr" where
  "json_dumps JNull = py ''null''"
| "json_dumps (JBool b) = (if b then py ''true'' else py ''false'')"
| "json_dumps (JInt i) = int_repr i"
| "json_dumps (JStr s) = encode_basestring_ascii s"
| "json_dumps (JList xs) = [0x5B] @ dumps_items xs @ [0x5D]"
| "json_dumps (JDict kvs) = [0x7B] @ dumps_pairs kvs @ [0x7D]"
| "dumps_items [] = []"
| "dumps_items [x] = json_dumps x"
| "dumps_items (x # y # ys) = json_dumps x @ py '', '' @ dumps_items (y # ys)"
| "dumps_pairs [] = []"
| "dumps_pairs [(k, v)] = encode_basestring_ascii k @ py '': '' @ json_dumps v"
| "dumps_pairs ((k, v) # p # ps) =
     encode_basestring_ascii k @ py '': '' @ json_dumps v @ py '', '' @ dumps_pairs (p # ps)"

section \<open>The envelope: class Delivery\<close>

record Delivery =
  data :: "(pystr \<times> json) list"

text \<open>
  \<^verbatim>\<open>Delivery.__init__(type, address, replyAddress, header, body)\<close>; an argument left
  out is \<^verbatim>\<open>None\<close>, and the default of \<^verbatim>\<open>type\<close> is \<^verbatim>\<open>"ping"\<close>.
\<close>

definition Delivery_init :: "json \<Rightarrow> json \<Rightarrow> json \<Rightarrow> json \<Rightarrow> json \<Rightarrow> Delivery" where
  "Delivery_init type address replyAddress header body =
     (let d0 = [(py ''type'', type)];
          d1 = (if truthy address then dict_set d0 (py ''address'') address else d0);
          d2 = (if truthy replyAddress then dict_set d1 (py ''replyAddress'') replyAddress else d1);
          d3 = (if truthy header then dict_set d2 (py ''header'') header else d2);
          d4 = (if truthy body then dict_set d3 (py ''body'') body else d3)
      in \<lparr>data = d4\<rparr>)"

definition Delivery_default :: Delivery where
  "Delivery_default = Delivery_init (JStr (py ''ping'')) JNull JNull JNull JNull"

section \<open>json.loads\<close>

text \<open>
  \<^verbatim>\<open>json.loads\<close> with its defaults, after CPython's scanner: \<^verbatim>\<open>scanstring\<close> in strict
  mode, \<^verbatim>\<open>_match_number\<close>, \<^verbatim>\<open>_parse_array\<close>, \<^verbatim>\<open>_parse_object\<close> and
  \<^verbatim>\<open>scan_once\<close>. A function that reads a value returns it with the text that follows.
  Every failure of the scanner is a \<^verbatim>\<open>JSONDecodeError\<close>. A float literal gives
  \<open>Unmodelled\<close>.
\<close>

definition is_ws :: "nat \<Rightarrow> bool" where
  "is_ws c = (c = 0x20 \<or> c = 0x09 \<or> c = 0x0A \<or> c = 0x0D)"

definition skip_ws :: "pystr \<Rightarrow> pystr" where
  "skip_ws s = dropWhile is_ws s"

definition is_digit :: "nat \<Rightarrow> bool" where
  "is_digit c = (48 \<le> c \<and> c \<le> 57)"

definition hex_val :: "nat \<Rightarrow> nat option" where
  "hex_val c =
     (if 48 \<le> c \<and> c \<le> 57 then Some (c - 48)
      else if 97 \<le> c \<and> c \<le> 102 then Some (c - 87)
      else if 65 \<le> c \<and> c \<le> 70 then Some (c - 55)
      else None)"

definition hex4_val :: "nat \<Rightarrow> nat \<Rightarrow> nat \<Rightarrow> nat \<Rightarrow> nat option" where
  "hex4_val h1 h2 h3 h4 =
     (case (hex_val h1, hex_val h2, hex_val h3, hex_val h4) of
        (Some a, Some b, Some c, Some d) \<Rightarrow> Some (a * 4096 + b * 256 + c * 16 + d)
      | _ \<Rightarrow> None)"

text \<open>The character after a backslash, other than \<^verbatim>\<open>u\<close>.\<close>

definition unescape :: "nat \<Rightarrow> nat option" where
  "unescape e =
     (if e = 0x22 then Some 0x22
      else if e = 0x5C then Some 0x5C
      else if e = 0x2F then Some 0x2F
      else if e = 0x62 then Some 0x08
      else if e = 0x66 then Some 0x0C
      else if e = 0x6E then Some 0x0A
      else if e = 0x72 then Some 0x0D
      else if e = 0x74 then Some 0x09
      else None)"

definition then_cons :: "nat \<Rightarrow> error + pystr \<times> pystr \<Rightarrow> error + pystr \<times> pystr" where
  "then_cons c r = (case r of Inl e \<Rightarrow> Inl e | Inr (s, rest) \<Rightarrow> Inr (c # s, rest))"

text \<open>
  \<^verbatim>\<open>scanstring\<close>, from the character after the opening quote. A \<^verbatim>\<open>\uXXXX\<close> escape of a
  high surrogate that is followed by the escape of a low surrogate gives one code point.
\<close>

fun scanstring :: "pystr \<Rightarrow> error + pystr \<times> pystr" where
  "scanstring [] = Inl JSONDecodeError"
| "scanstring (c # cs) =
     (if c = 0x22 then Inr ([], cs)
      else if c = 0x5C then
        (case cs of
           [] \<Rightarrow> Inl JSONDecodeError
         | e # r \<Rightarrow>
             if e = 0x75 then
               (case r of
                  h1 # h2 # h3 # h4 # r1 \<Rightarrow>
                    (case hex4_val h1 h2 h3 h4 of
                       None \<Rightarrow> Inl JSONDecodeError
                     | Some u1 \<Rightarrow>
                         if 0xD800 \<le> u1 \<and> u1 \<le> 0xDBFF then
                           (case r1 of
                              b # u # g1 # g2 # g3 # g4 # r2 \<Rightarrow>
                                if b = 0x5C \<and> u = 0x75 then
                                  (case hex4_val g1 g2 g3 g4 of
                                     None \<Rightarrow> Inl JSONDecodeError
                                   | Some u2 \<Rightarrow>
                                       if 0xDC00 \<le> u2 \<and> u2 \<le> 0xDFFF
                                       then then_cons (0x10000 + (u1 - 0xD800) * 1024 + (u2 - 0xDC00))
                                              (scanstring r2)
                                       else then_cons u1 (scanstring r1))
                                else then_cons u1 (scanstring r1)
                            | _ \<Rightarrow> then_cons u1 (scanstring r1))
                         else then_cons u1 (scanstring r1))
                | _ \<Rightarrow> Inl JSONDecodeError)
             else
               (case unescape e of
                  None \<Rightarrow> Inl JSONDecodeError
                | Some ch \<Rightarrow> then_cons ch (scanstring r)))
      else if c < 0x20 then Inl JSONDecodeError
      else then_cons c (scanstring cs))"

text \<open>
  \<^verbatim>\<open>_match_number\<close>: an optional minus sign, then \<^verbatim>\<open>0\<close> or a digit from 1 to 9 and any
  digits. A fraction (a point and a digit) or an exponent (\<^verbatim>\<open>e\<close> or \<^verbatim>\<open>E\<close>, an optional
  sign, a digit) after it makes the number a float.
\<close>

fun read_digits :: "nat \<Rightarrow> pystr \<Rightarrow> nat \<times> pystr" where
  "read_digits acc [] = (acc, [])"
| "read_digits acc (c # cs) =
     (if is_digit c then read_digits (acc * 10 + (c - 48)) cs else (acc, c # cs))"

definition is_float_tail :: "pystr \<Rightarrow> bool" where
  "is_float_tail r =
     (case r of
        [] \<Rightarrow> False
      | c # r1 \<Rightarrow>
          if c = 0x2E then (case r1 of [] \<Rightarrow> False | d # _ \<Rightarrow> is_digit d)
          else if c = 0x65 \<or> c = 0x45 then
            (case r1 of
               [] \<Rightarrow> False
             | d # r2 \<Rightarrow>
                 is_digit d
                 \<or> ((d = 0x2B \<or> d = 0x2D) \<and> (case r2 of [] \<Rightarrow> False | d2 # _ \<Rightarrow> is_digit d2)))
          else False)"

definition number_result :: "bool \<Rightarrow> nat \<Rightarrow> pystr \<Rightarrow> error + json \<times> pystr" where
  "number_result neg n r =
     (if is_float_tail r then Inl Unmodelled
      else Inr (JInt (if neg then - int n else int n), r))"

definition match_digits :: "bool \<Rightarrow> pystr \<Rightarrow> error + json \<times> pystr" where
  "match_digits neg s =
     (case s of
        [] \<Rightarrow> Inl JSONDecodeError
      | c # cs \<Rightarrow>
          if 49 \<le> c \<and> c \<le> 57 then
            (case read_digits (c - 48) cs of (n, r) \<Rightarrow> number_result neg n r)
          else if c = 48 then number_result neg 0 cs
          else Inl JSONDecodeError)"

definition match_number :: "pystr \<Rightarrow> error + json \<times> pystr" where
  "match_number s =
     (case s of
        [] \<Rightarrow> Inl JSONDecodeError
      | c # cs \<Rightarrow> if c = 0x2D then match_digits True cs else match_digits False s)"

text \<open>\<^verbatim>\<open>dict\<close> built from the pairs of an object in their order: a repeated key keeps
  its first position and takes the last value.\<close>

definition dict_of_pairs :: "(pystr \<times> json) list \<Rightarrow> (pystr \<times> json) list" where
  "dict_of_pairs kvs = foldl (\<lambda>d (k, v). dict_set d k v) [] kvs"

text \<open>
  \<^verbatim>\<open>scan_once\<close> with the loops of \<^verbatim>\<open>_parse_array\<close> and \<^verbatim>\<open>_parse_object\<close>. \<open>parse_array\<close>
  starts at an element, \<open>parse_object\<close> at the quote of a key. The first argument bounds
  the depth of the recursion; when it is used up the result is \<open>RecursionError\<close>.
\<close>

fun scan_once :: "nat \<Rightarrow> pystr \<Rightarrow> error + json \<times> pystr"
and parse_array :: "nat \<Rightarrow> pystr \<Rightarrow> error + json list \<times> pystr"
and parse_object :: "nat \<Rightarrow> pystr \<Rightarrow> error + (pystr \<times> json) list \<times> pystr" where
  "scan_once 0 s = Inl RecursionError"
| "scan_once (Suc n) s =
     (case s of
        [] \<Rightarrow> Inl JSONDecodeError
      | c # cs \<Rightarrow>
          if c = 0x22 then
            (case scanstring cs of Inl e \<Rightarrow> Inl e | Inr (t, r) \<Rightarrow> Inr (JStr t, r))
          else if c = 0x7B then
            (case skip_ws cs of
               [] \<Rightarrow> Inl JSONDecodeError
             | c1 # r1 \<Rightarrow>
                 if c1 = 0x7D then Inr (JDict [], r1)
                 else (case parse_object n (c1 # r1) of
                         Inl e \<Rightarrow> Inl e
                       | Inr (kvs, r) \<Rightarrow> Inr (JDict (dict_of_pairs kvs), r)))
          else if c = 0x5B then
            (case skip_ws cs of
               [] \<Rightarrow> Inl JSONDecodeError
             | c1 # r1 \<Rightarrow>
                 if c1 = 0x5D then Inr (JList [], r1)
                 else (case parse_array n (c1 # r1) of
                         Inl e \<Rightarrow> Inl e
                       | Inr (vs, r) \<Rightarrow> Inr (JList vs, r)))
          else if is_prefix (py ''null'') s then Inr (JNull, drop 4 s)
          else if is_prefix (py ''true'') s then Inr (JBool True, drop 4 s)
          else if is_prefix (py ''false'') s then Inr (JBool False, drop 5 s)
          else if is_prefix (py ''NaN'') s \<or> is_prefix (py ''Infinity'') s
                  \<or> is_prefix (py ''-Infinity'') s then Inl Unmodelled
          else match_number s)"
| "parse_array 0 s = Inl RecursionError"
| "parse_array (Suc n) s =
     (case scan_once n s of
        Inl e \<Rightarrow> Inl e
      | Inr (v, r) \<Rightarrow>
          (case skip_ws r of
             [] \<Rightarrow> Inl JSONDecodeError
           | c # r1 \<Rightarrow>
               if c = 0x5D then Inr ([v], r1)
               else if c = 0x2C then
                 (case parse_array n (skip_ws r1) of
                    Inl e \<Rightarrow> Inl e
                  | Inr (vs, r2) \<Rightarrow> Inr (v # vs, r2))
               else Inl JSONDecodeError))"
| "parse_object 0 s = Inl RecursionError"
| "parse_object (Suc n) s =
     (case s of
        [] \<Rightarrow> Inl JSONDecodeError
      | q # s1 \<Rightarrow>
          if q \<noteq> 0x22 then Inl JSONDecodeError
          else
            (case scanstring s1 of
               Inl e \<Rightarrow> Inl e
             | Inr (key, r) \<Rightarrow>
                 (case skip_ws r of
                    [] \<Rightarrow> Inl JSONDecodeError
                  | c # r1 \<Rightarrow>
                      if c \<noteq> 0x3A then Inl JSONDecodeError
                      else
                        (case scan_once n (skip_ws r1) of
                           Inl e \<Rightarrow> Inl e
                         | Inr (v, r2) \<Rightarrow>
                             (case skip_ws r2 of
                                [] \<Rightarrow> Inl JSONDecodeError
                              | c2 # r3 \<Rightarrow>
                                  if c2 = 0x7D then Inr ([(key, v)], r3)
                                  else if c2 = 0x2C then
                                    (case parse_object n (skip_ws r3) of
                                       Inl e \<Rightarrow> Inl e
                                     | Inr (kvs, r4) \<Rightarrow> Inr ((key, v) # kvs, r4))
                                  else Inl JSONDecodeError)))))"

text \<open>
  \<^verbatim>\<open>json.loads(s)\<close>: leading whitespace, one value, trailing whitespace, and nothing
  else. The bound given to \<open>scan_once\<close> is never used up (lemma \<open>json_loads_no_RecursionError\<close>);
  the recursion limit of CPython itself is not modelled.
\<close>

definition json_loads :: "pystr \<Rightarrow> error + json" where
  "json_loads s =
     (case scan_once (2 * length s + 2) (skip_ws s) of
        Inl e \<Rightarrow> Inl e
      | Inr (v, r) \<Rightarrow> if skip_ws r = [] then Inr v else Inl JSONDecodeError)"

section \<open>The frame codec: Delivery.serialize and Delivery.deserialize\<close>

text \<open>\<^verbatim>\<open>Delivery.__repr__\<close>\<close>

definition Delivery_repr :: "Delivery \<Rightarrow> pystr" where
  "Delivery_repr p = json_dumps (JDict (data p))"

definition serialize :: "Delivery \<Rightarrow> error + bytes" where
  "serialize p =
     (case utf8_encode (Delivery_repr p) of
        Inl e \<Rightarrow> Inl e
      | Inr msg \<Rightarrow> struct_pack (length msg) msg)"

text \<open>A slice is cut short, without an error, where the bytes end.\<close>

definition deserialize :: "bytes \<Rightarrow> error + json" where
  "deserialize byte_array =
     (let len = int_from_bytes (take 4 byte_array) in
      case utf8_decode (take len (drop 4 byte_array)) of
        Inl e \<Rightarrow> Inl e
      | Inr text \<Rightarrow> json_loads text)"

section \<open>The session: class EventBus\<close>

text \<open>
  A handler is a callable: the logging lambda that \<^verbatim>\<open>send\<close> installs (it captures the
  address), or a function of the caller, of which only the identity matters. Calling a
  handler is recorded in \<open>calls\<close>; the handler itself is taken to return normally.
\<close>

datatype 'f handler = DefaultLogger json | Callback 'f

datatype task = ConnectThenListen | Ping

text \<open>
  The state of an \<^verbatim>\<open>EventBus\<close>: \<open>inputs\<close> is the outbound \<^verbatim>\<open>asyncio.Queue\<close>,
  \<open>listen_funcs\<close> the listener registry (keyed by hashed address), \<open>tasks\<close> the tasks
  created on the event loop, \<open>daemon_started\<close> whether the thread \<^verbatim>\<open>daemon\<close> was
  started, \<open>calls\<close> the handler invocations so far, \<open>wire\<close> the bytes written to the
  socket and \<open>log_errors\<close> the messages given to \<^verbatim>\<open>LOGGER.error\<close>. Debug logging is left
  out. \<^verbatim>\<open>call_soon_threadsafe(self.inputs.put_nowait, payload)\<close> is modelled by its
  effect on the queue.
\<close>

record 'f EventBus =
  inputs :: "Delivery list"
  listen_funcs :: "json \<rightharpoonup> 'f handler"
  tasks :: "task list"
  daemon_started :: bool
  calls :: "('f handler \<times> json) list"
  wire :: bytes
  log_errors :: "string list"

definition EventBus_init :: "'f EventBus" where
  "EventBus_init =
     \<lparr>inputs = [], listen_funcs = Map.empty, tasks = [], daemon_started = False,
      calls = [], wire = [], log_errors = []\<rparr>"

text \<open>\<^verbatim>\<open>self.listen_funcs[address] = func\<close>\<close>

definition add_listen_func :: "'f EventBus \<Rightarrow> json \<Rightarrow> 'f handler \<Rightarrow> error + 'f EventBus" where
  "add_listen_func s address func =
     (case py_hash address of
        Inl e \<Rightarrow> Inl e
      | Inr k \<Rightarrow> Inr (s\<lparr>listen_funcs := (listen_funcs s)(k \<mapsto> func)\<rparr>))"

text \<open>
  \<^verbatim>\<open>del self.listen_funcs[address]\<close> inside \<^verbatim>\<open>try ... except KeyError\<close>: a missing key
  is logged, any other exception leaves the function.
\<close>

definition registry_del :: "(json \<rightharpoonup> 'h) \<Rightarrow> json \<Rightarrow> error + (json \<rightharpoonup> 'h)" where
  "registry_del r address =
     (case py_hash address of
        Inl e \<Rightarrow> Inl e
      | Inr k \<Rightarrow> (if r k = None then Inl KeyError else Inr (r(k := None))))"

definition delete_listen_func :: "'f EventBus \<Rightarrow> json \<Rightarrow> error + 'f EventBus" where
  "delete_listen_func s address =
     (case registry_del (listen_funcs s) address of
        Inr r \<Rightarrow> Inr (s\<lparr>listen_funcs := r\<rparr>)
      | Inl KeyError \<Rightarrow>
          Inr (s\<lparr>log_errors := log_errors s @ [''There is the address listening function'']\<rparr>)
      | Inl e \<Rightarrow> Inl e)"

text \<open>\<^verbatim>\<open>EventBus.send\<close>\<close>

definition send :: "'f EventBus \<Rightarrow> Delivery \<Rightarrow> error + 'f EventBus" where
  "send s payload =
     (let address = dict_get (data payload) (py ''address'') in
      if truthy address \<and> dict_get (data payload) (py ''type'') = JStr (py ''register'')
      then (case py_hash address of
              Inl e \<Rightarrow> Inl e
            | Inr k \<Rightarrow>
                Inr (s\<lparr>listen_funcs := (listen_funcs s)(k \<mapsto> DefaultLogger address),
                       inputs := inputs s @ [payload]\<rparr>))
      else Inr (s\<lparr>inputs := inputs s @ [payload]\<rparr>))"

text \<open>
  \<^verbatim>\<open>EventBus.listen\<close>. \<^verbatim>\<open>or\<close> evaluates its second operand only when the first is
  false; \<^verbatim>\<open>self.listen_funcs.get(address)\<close> hashes the address.
\<close>

definition listen :: "'f EventBus \<Rightarrow> json \<Rightarrow> error + 'f EventBus" where
  "listen s obj =
     (case py_contains obj (py ''address'') of
        Inl e \<Rightarrow> Inl e
      | Inr False \<Rightarrow> Inr s
      | Inr True \<Rightarrow>
         (case py_contains obj (py ''body'') of
            Inl e \<Rightarrow> Inl e
          | Inr False \<Rightarrow> Inr s
          | Inr True \<Rightarrow>
             (case py_getitem obj (py ''address'') of
                Inl e \<Rightarrow> Inl e
              | Inr address \<Rightarrow>
                 (case py_getitem obj (py ''body'') of
                    Inl e \<Rightarrow> Inl e
                  | Inr body \<Rightarrow>
                     (case py_hash address of
                        Inl e \<Rightarrow> Inl e
                      | Inr k \<Rightarrow>
                         (case listen_funcs s k of
                            None \<Rightarrow> Inr s
                          | Some func \<Rightarrow> Inr (s\<lparr>calls := calls s @ [(func, body)]\<rparr>)))))))"

text \<open>
  \<^verbatim>\<open>EventBus.connect\<close>: two \<^verbatim>\<open>create_task\<close> calls, then \<^verbatim>\<open>self.daemon.start()\<close>, which
  raises \<^verbatim>\<open>RuntimeError\<close> for a thread that was started before. The tasks created
  before the exception stay on the loop, so the state is returned in both cases.
\<close>

definition connect :: "'f EventBus \<Rightarrow> error option \<times> 'f EventBus" where
  "connect s =
     (let s1 = s\<lparr>tasks := tasks s @ [ConnectThenListen]\<rparr>;
          s2 = s1\<lparr>tasks := tasks s1 @ [Ping]\<rparr>
      in if daemon_started s2 then (Some RuntimeError, s2)
         else (None, s2\<lparr>daemon_started := True\<rparr>))"

text \<open>\<^verbatim>\<open>EventBus.ping\<close>: one turn of the \<^verbatim>\<open>while True\<close> loop, without the sleep.\<close>

definition ping_iteration :: "'f EventBus \<Rightarrow> error + 'f EventBus" where
  "ping_iteration s = send s Delivery_default"

text \<open>
  One turn of the loop in \<^verbatim>\<open>_connect_then_listen\<close>. When the queue has an item:
  \<^verbatim>\<open>writer.write(msg.serialize())\<close>. When \<^verbatim>\<open>reader.read(100000)\<close> has returned \<open>byte\<close>:
  \<^verbatim>\<open>obj = Delivery.deserialize(byte); self.listen(obj)\<close>. An exception ends the loop.
\<close>

definition on_outgoing :: "'f EventBus \<Rightarrow> error + 'f EventBus" where
  "on_outgoing s =
     (case inputs s of
        [] \<Rightarrow> Inr s
      | msg # queue \<Rightarrow>
          (case serialize msg of
             Inl e \<Rightarrow> Inl e
           | Inr frame \<Rightarrow> Inr (s\<lparr>inputs := queue, wire := wire s @ frame\<rparr>)))"

definition on_incoming :: "'f EventBus \<Rightarrow> bytes \<Rightarrow> error + 'f EventBus" where
  "on_incoming s byte =
     (case deserialize byte of
        Inl e \<Rightarrow> Inl e
      | Inr obj \<Rightarrow> listen s obj)"

section \<open>Facts about dictionaries and envelopes\<close>

lemma py_eq_iff [simp]: "py a = py b \<longleftrightarrow> a = b"
  unfolding py_def by (rule inj_map_eq_map) (rule inj_of_char)

lemma py_eq_Nil [simp]: "py s = [] \<longleftrightarrow> s = []"
  by (simp add: py_def)

lemma dict_get_dict_set:
  "dict_get (dict_set d k v) k' = (if k' = k then v else dict_get d k')"
  by (induction d) (auto simp: dict_get_def)

lemma keys_dict_set: "set (map fst (dict_set d k v)) = insert k (set (map fst d))"
  by (induction d) force+

lemma Delivery_init_type:
  "dict_get (data (Delivery_init t a r h b)) (py ''type'') = t"
  by (simp add: Delivery_init_def Let_def dict_get_dict_set)
     (simp add: dict_get_def)

lemma Delivery_init_address:
  "dict_get (data (Delivery_init t a r h b)) (py ''address'') = (if truthy a then a else JNull)"
  by (simp add: Delivery_init_def Let_def dict_get_dict_set)
     (simp add: dict_get_def)

lemma Delivery_init_address_key:
  "py ''address'' \<in> set (map fst (data (Delivery_init t a r h b))) \<longleftrightarrow> truthy a"
  by (simp add: Delivery_init_def Let_def keys_dict_set del: set_map)

lemma py_contains_dict: "py_contains (JDict d) key = Inr (map_of d key \<noteq> None)"
  by (simp add: map_of_eq_None_iff)

section \<open>The listener registry and the facade\<close>

text \<open>
  Claim C5. For an envelope built by the constructor with a string type and an address
  that is a string or left out: when the type is \<^verbatim>\<open>"register"\<close> and the envelope has an
  \<^verbatim>\<open>address\<close> field, \<^verbatim>\<open>send\<close> stores the default logging handler for that address in
  the registry and appends the envelope to the outbound queue; for every other envelope
  it appends the envelope and leaves the registry as it was.
\<close>

theorem send_registers_then_enqueues:
  assumes "p = Delivery_init (JStr t) address replyAddress header body"
      and "address = JNull \<or> address = JStr a"
  shows "(t = py ''register'' \<and> py ''address'' \<in> set (map fst (data p)) \<longrightarrow>
            send s p = Inr (s\<lparr>listen_funcs := (listen_funcs s)(address \<mapsto> DefaultLogger address),
                               inputs := inputs s @ [p]\<rparr>))
       \<and> (\<not> (t = py ''register'' \<and> py ''address'' \<in> set (map fst (data p))) \<longrightarrow>
            send s p = Inr (s\<lparr>inputs := inputs s @ [p]\<rparr>))"
  using assms
  by (auto simp: send_def Let_def Delivery_init_type Delivery_init_address Delivery_init_address_key
           simp del: set_map)

theorem send_registers_then_enqueues_witness:
  "send (EventBus_init :: nat EventBus)
        (Delivery_init (JStr (py ''register'')) (JStr (py ''news'')) JNull JNull JNull)
     = Inr ((EventBus_init :: nat EventBus)
              \<lparr>listen_funcs := [JStr (py ''news'') \<mapsto> DefaultLogger (JStr (py ''news''))],
               inputs := [Delivery_init (JStr (py ''register'')) (JStr (py ''news'')) JNull JNull JNull]\<rparr>)
   \<and> send (EventBus_init :: nat EventBus)
        (Delivery_init (JStr (py ''send'')) (JStr (py ''news'')) JNull JNull (JDict [(py ''msg'', JStr (py ''hi''))]))
     = Inr ((EventBus_init :: nat EventBus)
              \<lparr>inputs := [Delivery_init (JStr (py ''send'')) (JStr (py ''news'')) JNull JNull
                              (JDict [(py ''msg'', JStr (py ''hi''))])]\<rparr>)"
proof -
  let ?e = "EventBus_init :: nat EventBus"
  let ?n = "JStr (py ''news'')"
  let ?p = "Delivery_init (JStr (py ''register'')) ?n JNull JNull JNull"
  let ?q = "Delivery_init (JStr (py ''send'')) ?n JNull JNull (JDict [(py ''msg'', JStr (py ''hi''))])"
  have a: "?n = JNull \<or> ?n = JStr (py ''news'')"
    by simp
  have k: "py ''register'' = py ''register'' \<and> py ''address'' \<in> set (map fst (data ?p))"
    by (simp add: Delivery_init_address_key del: set_map)
  have 1: "send ?e ?p = Inr (?e\<lparr>listen_funcs := (listen_funcs ?e)(?n \<mapsto> DefaultLogger ?n),
                               inputs := inputs ?e @ [?p]\<rparr>)"
    by (rule send_registers_then_enqueues [OF refl a, THEN conjunct1, THEN mp, OF k])
  have nk: "\<not> (py ''send'' = py ''register'' \<and> py ''address'' \<in> set (map fst (data ?q)))"
    by simp
  have 2: "send ?e ?q = Inr (?e\<lparr>inputs := inputs ?e @ [?q]\<rparr>)"
    by (rule send_registers_then_enqueues [OF refl a, THEN conjunct2, THEN mp, OF nk])
  have i: "inputs ?e = []" and l: "listen_funcs ?e = Map.empty"
    by (simp_all add: EventBus_init_def)
  show ?thesis
    unfolding 1 2 i l by simp
qed

text \<open>
  Claim C6. For every registry state and every address string: when no handler is
  registered for the address, \<^verbatim>\<open>delete_listen_func\<close> returns normally, having logged an
  error and changed nothing else, so the registry is as before; when a handler is
  registered, it returns normally with that entry removed from the registry and every
  other entry as before.
\<close>

theorem delete_listen_func_policy:
  "(listen_funcs s (JStr a) = None \<longrightarrow>
      delete_listen_func s (JStr a)
        = Inr (s\<lparr>log_errors := log_errors s @ [''There is the address listening function'']\<rparr>))
   \<and> (listen_funcs s (JStr a) \<noteq> None \<longrightarrow>
      delete_listen_func s (JStr a)
        = Inr (s\<lparr>listen_funcs := (listen_funcs s)(JStr a := None)\<rparr>))"
  by (auto simp: delete_listen_func_def registry_del_def)

theorem delete_listen_func_policy_witness:
  "delete_listen_func (EventBus_init :: nat EventBus) (JStr (py ''news''))
     = Inr (EventBus_init\<lparr>log_errors := [''There is the address listening function'']\<rparr>)
   \<and> delete_listen_func
        ((EventBus_init :: nat EventBus)\<lparr>listen_funcs := [JStr (py ''news'') \<mapsto> Callback 1]\<rparr>)
        (JStr (py ''news''))
     = Inr (EventBus_init :: nat EventBus)"
proof -
  let ?e = "EventBus_init :: nat EventBus"
  let ?s = "?e\<lparr>listen_funcs := [JStr (py ''news'') \<mapsto> Callback 1]\<rparr>"
  have n: "listen_funcs ?e (JStr (py ''news'')) = None"
    by (simp add: EventBus_init_def)
  have m: "listen_funcs ?s (JStr (py ''news'')) \<noteq> None"
    by simp
  have 1: "delete_listen_func ?e (JStr (py ''news''))
             = Inr (?e\<lparr>log_errors := log_errors ?e @ [''There is the address listening function'']\<rparr>)"
    by (rule delete_listen_func_policy [THEN conjunct1, THEN mp, OF n])
  have 2: "delete_listen_func ?s (JStr (py ''news''))
             = Inr (?s\<lparr>listen_funcs := (listen_funcs ?s)(JStr (py ''news'') := None)\<rparr>)"
    by (rule delete_listen_func_policy [THEN conjunct2, THEN mp, OF m])
  have l: "log_errors ?e = []"
    by (simp add: EventBus_init_def)
  have 3: "?s\<lparr>listen_funcs := (listen_funcs ?s)(JStr (py ''news'') := None)\<rparr> = ?e"
    by (simp add: EventBus_init_def)
  show ?thesis
    unfolding 1 2 3 l by simp
qed

text \<open>
  Claim C4, as amended. For every decoded mapping and every registry state: when the
  mapping lacks the key \<^verbatim>\<open>address\<close> or the key \<^verbatim>\<open>body\<close>, \<^verbatim>\<open>listen\<close> changes nothing and
  calls no handler. When both keys are present and the address is hashable (a string, a
  number, a boolean or \<^verbatim>\<open>None\<close>): if a handler is registered for the address, that
  handler and no other is called, once, with the mapping's body; if none is registered,
  nothing happens.
\<close>

theorem listen_dispatch:
  "(py ''address'' \<notin> set (map fst d) \<or> py ''body'' \<notin> set (map fst d) \<longrightarrow>
      listen s (JDict d) = Inr s)
   \<and> (map_of d (py ''address'') = Some address \<and> map_of d (py ''body'') = Some body
        \<and> py_hash address = Inr k \<longrightarrow>
        (\<forall>func. listen_funcs s k = Some func \<longrightarrow>
            listen s (JDict d) = Inr (s\<lparr>calls := calls s @ [(func, body)]\<rparr>))
      \<and> (listen_funcs s k = None \<longrightarrow> listen s (JDict d) = Inr s))"
proof (intro conjI impI allI)
  assume "py ''address'' \<notin> set (map fst d) \<or> py ''body'' \<notin> set (map fst d)"
  then have "map_of d (py ''address'') = None \<or> map_of d (py ''body'') = None"
    by (simp add: map_of_eq_None_iff)
  then show "listen s (JDict d) = Inr s"
    unfolding listen_def py_contains_dict by (auto split: bool.splits)
next
  fix func
  assume "map_of d (py ''address'') = Some address \<and> map_of d (py ''body'') = Some body
        \<and> py_hash address = Inr k" and "listen_funcs s k = Some func"
  then show "listen s (JDict d) = Inr (s\<lparr>calls := calls s @ [(func, body)]\<rparr>)"
    unfolding listen_def py_contains_dict by simp
next
  assume "map_of d (py ''address'') = Some address \<and> map_of d (py ''body'') = Some body
        \<and> py_hash address = Inr k" and "listen_funcs s k = None"
  then show "listen s (JDict d) = Inr s"
    unfolding listen_def py_contains_dict by simp
qed

theorem listen_dispatch_witness:
  "listen ((EventBus_init :: nat EventBus)\<lparr>listen_funcs := [JStr (py ''news'') \<mapsto> Callback 7]\<rparr>)
          (JDict [(py ''type'', JStr (py ''delivery'')), (py ''address'', JStr (py ''news'')),
                  (py ''body'', JDict [(py ''msg'', JStr (py ''hi''))])])
     = Inr ((EventBus_init :: nat EventBus)
              \<lparr>listen_funcs := [JStr (py ''news'') \<mapsto> Callback 7],
               calls := [(Callback 7, JDict [(py ''msg'', JStr (py ''hi''))])]\<rparr>)
   \<and> listen (EventBus_init :: nat EventBus)
          (JDict [(py ''type'', JStr (py ''delivery'')), (py ''address'', JStr (py ''news''))])
     = Inr EventBus_init
   \<and> listen (EventBus_init :: nat EventBus)
          (JDict [(py ''address'', JInt 5), (py ''body'', JNull)])
     = Inr EventBus_init"
proof -
  let ?e = "EventBus_init :: nat EventBus"
  let ?s = "?e\<lparr>listen_funcs := [JStr (py ''news'') \<mapsto> Callback 7]\<rparr>"
  let ?b = "JDict [(py ''msg'', JStr (py ''hi''))]"
  let ?d = "[(py ''type'', JStr (py ''delivery'')), (py ''address'', JStr (py ''news'')), (py ''body'', ?b)]"
  let ?d2 = "[(py ''type'', JStr (py ''delivery'')), (py ''address'', JStr (py ''news''))]"
  let ?d3 = "[(py ''address'', JInt 5), (py ''body'', JNull)]"
  have a: "map_of ?d (py ''address'') = Some (JStr (py ''news'')) \<and> map_of ?d (py ''body'') = Some ?b
             \<and> py_hash (JStr (py ''news'')) = Inr (JStr (py ''news''))"
    by simp
  have f: "listen_funcs ?s (JStr (py ''news'')) = Some (Callback 7)"
    by simp
  have 1: "listen ?s (JDict ?d) = Inr (?s\<lparr>calls := calls ?s @ [(Callback 7, ?b)]\<rparr>)"
    by (rule listen_dispatch [THEN conjunct2, THEN mp, OF a, THEN conjunct1, THEN spec, THEN mp, OF f])
  have c: "calls ?s = []"
    by (simp add: EventBus_init_def)
  have k: "py ''address'' \<notin> set (map fst ?d2) \<or> py ''body'' \<notin> set (map fst ?d2)"
    by simp
  have 2: "listen ?e (JDict ?d2) = Inr ?e"
    by (rule listen_dispatch [THEN conjunct1, THEN mp, OF k])
  have a3: "map_of ?d3 (py ''address'') = Some (JInt 5) \<and> map_of ?d3 (py ''body'') = Some JNull
             \<and> py_hash (JInt 5) = Inr (JInt 5)"
    by simp
  have n: "listen_funcs ?e (JInt 5) = None"
    by (simp add: EventBus_init_def)
  have 3: "listen ?e (JDict ?d3) = Inr ?e"
    by (rule listen_dispatch [THEN conjunct2, THEN mp, OF a3, THEN conjunct2, THEN mp, OF n])
  show ?thesis
    unfolding 1 2 3 c by simp
qed

text \<open>
  The claim as stated fails for an address that is a JSON array or object: the registry
  lookup raises \<^verbatim>\<open>TypeError\<close> (unhashable type) instead of dropping the envelope.
\<close>

theorem listen_dispatch_counterexample:
  "listen (EventBus_init :: nat EventBus) (JDict [(py ''address'', JList []), (py ''body'', JNull)])
     = Inl TypeError"
  by (simp add: listen_def)

text \<open>
  Claim C9, as amended. \<^verbatim>\<open>connect\<close> has no guard. After one call the thread is
  started; a further call creates a second connection-loop task and a second keepalive
  task on the event loop and then fails with \<^verbatim>\<open>RuntimeError\<close>, raised by starting the
  thread again: no second thread is started, and nothing else of the session changes.
\<close>

theorem connect_again:
  "daemon_started (snd (connect s0))
   \<and> (daemon_started s \<longrightarrow>
        connect s = (Some RuntimeError, s\<lparr>tasks := tasks s @ [ConnectThenListen, Ping]\<rparr>))"
  by (simp add: connect_def Let_def)

theorem connect_again_witness:
  "connect (snd (connect (EventBus_init :: nat EventBus)))
     = (Some RuntimeError,
        (snd (connect (EventBus_init :: nat EventBus)))
          \<lparr>tasks := tasks (snd (connect (EventBus_init :: nat EventBus))) @ [ConnectThenListen, Ping]\<rparr>)"
  using connect_again [of "EventBus_init :: nat EventBus" "snd (connect (EventBus_init :: nat EventBus))"]
  by blast

text \<open>
  The claim as stated fails: the second call is not a no-op, and it has created a second
  connection loop and a second keepalive task before it fails.
\<close>

theorem connect_again_counterexample:
  "connect (snd (connect (EventBus_init :: nat EventBus)))
     = (Some RuntimeError,
        EventBus_init\<lparr>tasks := [ConnectThenListen, Ping, ConnectThenListen, Ping],
                      daemon_started := True\<rparr>)
   \<and> snd (connect (snd (connect (EventBus_init :: nat EventBus))))
       \<noteq> snd (connect (EventBus_init :: nat EventBus))"
  by (simp add: connect_def Let_def EventBus_init_def)

end
